theory Spec2Isabelle
  imports Complex_Main
begin

section \<open>Values of the notebook\<close>

text \<open>
  The notebook \<^verbatim>\<open>docs/source/examples/notebooks/multi_fidelity.ipynb\<close> works with Python
  floats: the fidelities \<^verbatim>\<open>0.1\<close> and \<^verbatim>\<open>1.0\<close>, the band gaps of the lookup table and
  the accumulated cost. The loop performs no float arithmetic on fidelities and measurements;
  it compares them with \<^verbatim>\<open>==\<close> and \<^verbatim>\<open>np.amin\<close> orders them. A float is therefore the
  rational number it denotes, an infinity, or NaN, and \<^verbatim>\<open>==\<close> is written out, since NaN is
  equal to nothing, itself included.
\<close>

datatype pyfloat = Fin rat | PosInf | NegInf | NaN

fun float_eq :: "pyfloat \<Rightarrow> pyfloat \<Rightarrow> bool" where
  "float_eq (Fin a) (Fin b) = (a = b)"
| "float_eq PosInf PosInf = True"
| "float_eq NegInf NegInf = True"
| "float_eq _ _ = False"

fun float_lt :: "pyfloat \<Rightarrow> pyfloat \<Rightarrow> bool" where
  "float_lt NaN _ = False"
| "float_lt _ NaN = False"
| "float_lt (Fin a) (Fin b) = (a < b)"
| "float_lt NegInf NegInf = False"
| "float_lt NegInf _ = True"
| "float_lt _ NegInf = False"
| "float_lt PosInf _ = False"
| "float_lt _ PosInf = True"

definition float_le :: "pyfloat \<Rightarrow> pyfloat \<Rightarrow> bool" where
  "float_le a b = (float_lt a b \<or> float_eq a b)"

text \<open>The literal \<^verbatim>\<open>1.0\<close> is the number one; the literal \<^verbatim>\<open>0.1\<close> is the double nearest
  to one tenth, \<open>3602879701896397 / 2 ^ 55\<close>.\<close>

definition lit_1_0 :: pyfloat where
  "lit_1_0 = Fin 1"

definition lit_0_1 :: pyfloat where
  "lit_0_1 = Fin (3602879701896397 / 36028797018963968)"

text \<open>The exceptions the cells can raise. \<open>PlannerError\<close> stands for whatever the planner,
  which is not part of the notebook, raises.\<close>

datatype error =
    ZeroDivisionError
  | KeyError
  | ValueError
  | UnboundLocalError
  | NameError
  | IndexError
  | PlannerError

section \<open>Cell 7: the lookup table and \<open>measure\<close>\<close>

text \<open>
  A sample is the planner's \<^verbatim>\<open>ParameterVector\<close>: the fidelity \<^verbatim>\<open>s\<close> and the three
  perovskite components. \<^verbatim>\<open>LOOKUP\<close> is unpickled from a file that is not in the notebook;
  it is a parameter here, four nested dictionaries ending in the list of band gaps that
  \<^verbatim>\<open>np.amin\<close> reduces.
\<close>

record sample =
  s :: pyfloat
  organic :: string
  cation :: string
  anion :: string

type_synonym lookup =
  "string \<rightharpoonup> (string \<rightharpoonup> (string \<rightharpoonup> (string \<rightharpoonup> pyfloat list)))"

text \<open>\<^verbatim>\<open>str.capitalize()\<close> on ASCII text: the first character in upper case, the others in
  lower case. A \<open>char\<close> is a byte; bytes from 128 on are left as they are, where Python maps
  the case of the code points they encode.\<close>

definition upper_ascii :: "char \<Rightarrow> char" where
  "upper_ascii c =
     (let n = (of_char c :: nat) in if 97 \<le> n \<and> n \<le> 122 then char_of (n - 32) else c)"

definition lower_ascii :: "char \<Rightarrow> char" where
  "lower_ascii c =
     (let n = (of_char c :: nat) in if 65 \<le> n \<and> n \<le> 90 then char_of (n + 32) else c)"

fun capitalize :: "string \<Rightarrow> string" where
  "capitalize [] = []"
| "capitalize (c # cs) = upper_ascii c # map lower_ascii cs"

text \<open>\<^verbatim>\<open>d[k]\<close> raises \<^verbatim>\<open>KeyError\<close> on a missing key.\<close>

definition getitem :: "('k \<rightharpoonup> 'v) \<Rightarrow> 'k \<Rightarrow> error + 'v" where
  "getitem d k = (case d k of None \<Rightarrow> Inl KeyError | Some v \<Rightarrow> Inr v)"

text \<open>\<^verbatim>\<open>LOOKUP[params.organic.capitalize()][params.cation][params.anion][key]\<close>, the
  subscripts evaluated from left to right.\<close>

definition lookup_bandgaps :: "lookup \<Rightarrow> sample \<Rightarrow> string \<Rightarrow> error + pyfloat list" where
  "lookup_bandgaps LOOKUP params key =
     (case getitem LOOKUP (capitalize (organic params)) of
        Inl e \<Rightarrow> Inl e
      | Inr by_cation \<Rightarrow>
          (case getitem by_cation (cation params) of
             Inl e \<Rightarrow> Inl e
           | Inr by_anion \<Rightarrow>
               (case getitem by_anion (anion params) of
                  Inl e \<Rightarrow> Inl e
                | Inr entry \<Rightarrow> getitem entry key)))"

text \<open>\<^verbatim>\<open>np.amin\<close>: the least element, NaN as soon as one element is NaN, and
  \<^verbatim>\<open>ValueError\<close> on an empty array.\<close>

definition fmin2 :: "pyfloat \<Rightarrow> pyfloat \<Rightarrow> pyfloat" where
  "fmin2 a b = (if a = NaN \<or> b = NaN then NaN else if float_lt b a then b else a)"

fun amin :: "pyfloat list \<Rightarrow> error + pyfloat" where
  "amin [] = Inl ValueError"
| "amin (x # xs) = Inr (fold (\<lambda>y acc. fmin2 acc y) xs x)"

text \<open>
  \<^verbatim>\<open>
  def measure(params, s):
      if s == 1.0:
          measurement = np.amin(LOOKUP[...][...][...]['bandgap_hse06'])
      elif s == 0.1:
          measurement = np.amin(LOOKUP[...][...][...]['bandgap_gga'])
      return measurement
  \<close>
  With neither branch taken the local \<^verbatim>\<open>measurement\<close> is unbound at the
  \<^verbatim>\<open>return\<close>.
\<close>

definition measure_oracle :: "lookup \<Rightarrow> sample \<Rightarrow> pyfloat \<Rightarrow> error + pyfloat" where
  "measure_oracle LOOKUP params sv =
     (if float_eq sv lit_1_0 then
        (case lookup_bandgaps LOOKUP params ''bandgap_hse06'' of
           Inl e \<Rightarrow> Inl e
         | Inr gaps \<Rightarrow> amin gaps)
      else if float_eq sv lit_0_1 then
        (case lookup_bandgaps LOOKUP params ''bandgap_gga'' of
           Inl e \<Rightarrow> Inl e
         | Inr gaps \<Rightarrow> amin gaps)
      else Inl UnboundLocalError)"

section \<open>Cell 4: the configuration\<close>

text \<open>
  \<^verbatim>\<open>
  COST_BUDGET = 50
  NUM_INIT_DESIGN = 10
  NUM_CHEAP = 8
  \<close>
  Three plain assignments; nothing checks them. The loop also reads \<^verbatim>\<open>min_hse06_bandgap\<close>,
  which no cell of the notebook assigns: it is taken as a fourth parameter.
\<close>

record config =
  COST_BUDGET :: rat
  NUM_INIT_DESIGN :: int
  NUM_CHEAP :: int
  min_hse06_bandgap :: pyfloat

section \<open>Cell 8: the planner\<close>

text \<open>
  \<^verbatim>\<open>MultiFidelityPlanner\<close> is imported, not defined, by the notebook. The loop uses three of
  its methods; each may change the planner's own state \<open>'p\<close> and each may raise. The planner
  is handed \<^verbatim>\<open>campaign.observations\<close> by reference, so what the greedy recommendation
  returns may depend on the ledger as it stands at the call: the ledger is an argument there
  as well.
\<close>

type_synonym observation = "sample \<times> pyfloat"

record 'p planner =
  set_ask_fidelity :: "pyfloat \<Rightarrow> 'p \<Rightarrow> error + 'p"
  recommend :: "observation list \<Rightarrow> 'p \<Rightarrow> error + (sample list \<times> 'p)"
  recommend_target_fidelity :: "int \<Rightarrow> observation list \<Rightarrow> 'p \<Rightarrow> error + (sample list \<times> 'p)"

section \<open>Cell 9: the experiment loop\<close>

text \<open>
  The variables of the cell that outlive one pass of the \<^verbatim>\<open>while\<close> loop:
  \<^verbatim>\<open>COST\<close>, \<^verbatim>\<open>iter_\<close> (the field \<open>iter_n\<close>: a name cannot end in an underscore
  here), \<^verbatim>\<open>target_rec_measurements\<close>, the global \<^verbatim>\<open>measurement\<close> (unbound, \<open>None\<close>,
  until the \<^verbatim>\<open>for\<close> loop first assigns it), the campaign's ledger
  (\<^verbatim>\<open>campaign.num_obs\<close> is its length) and the planner. \<^verbatim>\<open>samples\<close>,
  \<^verbatim>\<open>sample\<close>, \<^verbatim>\<open>rec_sample\<close> and \<^verbatim>\<open>rec_measurement\<close> are assigned in a pass before
  they are read in it, and are local to the pass here.
\<close>

record 'p state =
  COST :: rat
  iter_n :: int
  target_rec_measurements :: "pyfloat list"
  measurement :: "pyfloat option"
  observations :: "observation list"
  planner_state :: 'p

text \<open>\<^verbatim>\<open>COST = 0.\<close>, \<^verbatim>\<open>target_rec_measurements = []\<close>, \<^verbatim>\<open>iter_ = 0\<close>, a fresh
  \<^verbatim>\<open>Campaign()\<close>.\<close>

definition initial_state :: "'p \<Rightarrow> 'p state" where
  "initial_state p =
     \<lparr>COST = 0, iter_n = 0, target_rec_measurements = [], measurement = None,
      observations = [], planner_state = p\<rparr>"

text \<open>How one pass of the \<^verbatim>\<open>while\<close> body ends: at its last statement, at a \<^verbatim>\<open>break\<close>, or
  with an exception, which nothing catches.\<close>

datatype 'p outcome = Continue "'p state" | Break "'p state" | Raise error "'p state"

fun outcome_state :: "'p outcome \<Rightarrow> 'p state" where
  "outcome_state (Continue st) = st"
| "outcome_state (Break st) = st"
| "outcome_state (Raise e st) = st"

text \<open>
  \<^verbatim>\<open>
  if iter_ % NUM_CHEAP == 0:
      planner.set_ask_fidelity(1.0)
  else:
      planner.set_ask_fidelity(0.1)
  \<close>
  Python's \<^verbatim>\<open>%\<close> raises on a zero divisor and otherwise takes the sign of the divisor, as
  \<open>mod\<close> on \<open>int\<close> does.
\<close>

definition ask_fidelity :: "int \<Rightarrow> int \<Rightarrow> error + pyfloat" where
  "ask_fidelity i k =
     (if k = 0 then Inl ZeroDivisionError
      else if i mod k = 0 then Inr lit_1_0 else Inr lit_0_1)"

text \<open>
  \<^verbatim>\<open>
  for sample in samples:
      measurement = measure(sample, sample.s)
      campaign.add_observation(sample, measurement)
      iter_+=1
  \<close>
  The result is the exception that stopped the loop, if any, and the state reached.
\<close>

fun for_samples :: "lookup \<Rightarrow> sample list \<Rightarrow> 'p state \<Rightarrow> error option \<times> 'p state" where
  "for_samples LOOKUP [] st = (None, st)"
| "for_samples LOOKUP (sample # rest) st =
     (case measure_oracle LOOKUP sample (s sample) of
        Inl e \<Rightarrow> (Some e, st)
      | Inr m \<Rightarrow>
          for_samples LOOKUP rest
            (st\<lparr>measurement := Some m,
                observations := observations st @ [(sample, m)],
                iter_n := iter_n st + 1\<rparr>))"

text \<open>
  \<^verbatim>\<open>
  if campaign.num_obs > NUM_INIT_DESIGN:
      rec_sample = planner.recommend_target_fidelity(batch_size=1)[0]
      rec_measurement = measure(rec_sample, rec_sample.s)
      target_rec_measurements.append(rec_measurement)
      if rec_measurement == min_hse06_bandgap:
          break
  else:
      target_rec_measurements.append(measurement)
      if measurement == min_hse06_bandgap and samples[0].s == 1.:
          break
  \<close>
\<close>

definition convergence_check ::
  "config \<Rightarrow> 'p planner \<Rightarrow> lookup \<Rightarrow> sample list \<Rightarrow> 'p state \<Rightarrow> 'p outcome" where
  "convergence_check cfg P LOOKUP samples st =
     (if int (length (observations st)) > NUM_INIT_DESIGN cfg then
        (case recommend_target_fidelity P 1 (observations st) (planner_state st) of
           Inl e \<Rightarrow> Raise e st
         | Inr (recs, p') \<Rightarrow>
             (case recs of
                [] \<Rightarrow> Raise IndexError (st\<lparr>planner_state := p'\<rparr>)
              | rec_sample # _ \<Rightarrow>
                  (case measure_oracle LOOKUP rec_sample (s rec_sample) of
                     Inl e \<Rightarrow> Raise e (st\<lparr>planner_state := p'\<rparr>)
                   | Inr rec_measurement \<Rightarrow>
                       (let st' = st\<lparr>planner_state := p',
                                      target_rec_measurements :=
                                        target_rec_measurements st @ [rec_measurement]\<rparr>
                        in if float_eq rec_measurement (min_hse06_bandgap cfg)
                           then Break st' else Continue st'))))
      else
        (case measurement st of
           None \<Rightarrow> Raise NameError st
         | Some m \<Rightarrow>
             (let st' = st\<lparr>target_rec_measurements := target_rec_measurements st @ [m]\<rparr>
              in if float_eq m (min_hse06_bandgap cfg) then
                   (case samples of
                      [] \<Rightarrow> Raise IndexError st'
                    | first # _ \<Rightarrow>
                        if float_eq (s first) lit_1_0 then Break st' else Continue st')
                 else Continue st')))"

text \<open>
  The first half of a pass: the fidelity request, \<^verbatim>\<open>samples = planner.recommend(campaign.observations)\<close>
  and the \<^verbatim>\<open>for\<close> loop. It ends with an exception and the state at that point, or with
  the batch and the state after the \<^verbatim>\<open>for\<close> loop.
\<close>

definition request_and_measure ::
  "config \<Rightarrow> 'p planner \<Rightarrow> lookup \<Rightarrow> 'p state \<Rightarrow> (error \<times> 'p state) + (sample list \<times> 'p state)" where
  "request_and_measure cfg P LOOKUP st =
     (case ask_fidelity (iter_n st) (NUM_CHEAP cfg) of
        Inl e \<Rightarrow> Inl (e, st)
      | Inr fidelity \<Rightarrow>
          (case set_ask_fidelity P fidelity (planner_state st) of
             Inl e \<Rightarrow> Inl (e, st)
           | Inr p1 \<Rightarrow>
               (case recommend P (observations st) p1 of
                  Inl e \<Rightarrow> Inl (e, st\<lparr>planner_state := p1\<rparr>)
                | Inr (samples, p2) \<Rightarrow>
                    (case for_samples LOOKUP samples (st\<lparr>planner_state := p2\<rparr>) of
                       (Some e, st') \<Rightarrow> Inl (e, st')
                     | (None, st') \<Rightarrow> Inr (samples, st')))))"

text \<open>One pass of the \<^verbatim>\<open>while\<close> body.\<close>

definition loop_body :: "config \<Rightarrow> 'p planner \<Rightarrow> lookup \<Rightarrow> 'p state \<Rightarrow> 'p outcome" where
  "loop_body cfg P LOOKUP st =
     (case request_and_measure cfg P LOOKUP st of
        Inl (e, st') \<Rightarrow> Raise e st'
      | Inr (samples, st') \<Rightarrow> convergence_check cfg P LOOKUP samples st')"

text \<open>
  \<^verbatim>\<open>while COST < COST_BUDGET: ...\<close>. The loop may run forever, so it is a partial function:
  \<open>None\<close> means that it never returns.
\<close>

datatype 'p result = BudgetExhausted "'p state" | Converged "'p state" | Failed error "'p state"

partial_function (option) experiment_loop ::
  "config \<Rightarrow> 'p planner \<Rightarrow> lookup \<Rightarrow> 'p state \<Rightarrow> 'p result option" where
  "experiment_loop cfg P LOOKUP st =
     (if COST st < COST_BUDGET cfg then
        (case loop_body cfg P LOOKUP st of
           Continue st' \<Rightarrow> experiment_loop cfg P LOOKUP st'
         | Break st' \<Rightarrow> Some (Converged st')
         | Raise e st' \<Rightarrow> Some (Failed e st'))
      else Some (BudgetExhausted st))"

text \<open>The state at the head of the loop after \<open>n\<close> complete passes, if the loop gets that
  far.\<close>

fun passes :: "nat \<Rightarrow> config \<Rightarrow> 'p planner \<Rightarrow> lookup \<Rightarrow> 'p state \<Rightarrow> 'p state option" where
  "passes 0 cfg P LOOKUP st = Some st"
| "passes (Suc n) cfg P LOOKUP st =
     (if COST st < COST_BUDGET cfg then
        (case loop_body cfg P LOOKUP st of
           Continue st' \<Rightarrow> passes n cfg P LOOKUP st'
         | Break st' \<Rightarrow> None
         | Raise e st' \<Rightarrow> None)
      else None)"

section \<open>A concrete table, planner and configuration\<close>

text \<open>
  A small lookup table with three perovskites, and a planner that replays a script of
  batches and, once the script is used up, proposes one fixed compound at the fidelity it was
  asked for. The theorems below are evaluated on them.
\<close>

definition demo_lookup :: lookup where
  "demo_lookup =
     [''Ethylammonium'' \<mapsto>
        [''Pb'' \<mapsto>
           [''I'' \<mapsto> [''bandgap_hse06'' \<mapsto> [Fin (5 / 2), Fin (21 / 10)],
                      ''bandgap_gga'' \<mapsto> [Fin (8 / 5), Fin (19 / 10)]],
            ''Br'' \<mapsto> [''bandgap_hse06'' \<mapsto> [Fin 3],
                       ''bandgap_gga'' \<mapsto> [Fin (4 / 5)]]],
         ''Sn'' \<mapsto>
           [''I'' \<mapsto> [''bandgap_hse06'' \<mapsto> [Fin (4 / 5), Fin 1],
                      ''bandgap_gga'' \<mapsto> [Fin (1 / 2)]]]]]"

definition perovskite :: "pyfloat \<Rightarrow> string \<Rightarrow> string \<Rightarrow> sample" where
  "perovskite fidelity c a = \<lparr>s = fidelity, organic = ''ethylammonium'', cation = c, anion = a\<rparr>"

record scripted =
  asked :: pyfloat
  script :: "sample list list"
  greedy :: "sample list"

definition scripted_planner :: "scripted planner" where
  "scripted_planner =
     \<lparr>set_ask_fidelity = (\<lambda>fidelity p. Inr (p\<lparr>asked := fidelity\<rparr>)),
      recommend = (\<lambda>obs p.
        case script p of
          [] \<Rightarrow> Inr ([perovskite (asked p) ''Pb'' ''I''], p)
        | batch # rest \<Rightarrow> Inr (batch, p\<lparr>script := rest\<rparr>)),
      recommend_target_fidelity = (\<lambda>batch_size obs p. Inr (greedy p, p))\<rparr>"

definition scripted_start :: "sample list list \<Rightarrow> sample list \<Rightarrow> scripted state" where
  "scripted_start batches g = initial_state \<lparr>asked = NaN, script = batches, greedy = g\<rparr>"

text \<open>The configuration of the notebook, with the least HSE06 band gap of the table as
  \<^verbatim>\<open>min_hse06_bandgap\<close>.\<close>

definition notebook_config :: config where
  "notebook_config =
     \<lparr>COST_BUDGET = 50, NUM_INIT_DESIGN = 10, NUM_CHEAP = 8, min_hse06_bandgap = Fin (4 / 5)\<rparr>"

text \<open>The measurement of the most recent ledger entry, if there is one.\<close>

definition last_measurement :: "observation list \<Rightarrow> pyfloat option" where
  "last_measurement obs = (if obs = [] then None else Some (snd (last obs)))"

section \<open>Facts about the \<^verbatim>\<open>for\<close> loop and the convergence check\<close>

lemma for_samples_frame:
  "for_samples L xs st = (r, st') \<Longrightarrow>
     COST st' = COST st \<and> target_rec_measurements st' = target_rec_measurements st \<and>
     planner_state st' = planner_state st"
  by (induction xs arbitrary: st) (auto split: sum.splits)

lemma for_samples_last_measurement:
  "for_samples L xs st = (r, st') \<Longrightarrow> measurement st = last_measurement (observations st) \<Longrightarrow>
     measurement st' = last_measurement (observations st')"
proof (induction xs arbitrary: st)
  case Nil
  then show ?case by simp
next
  case (Cons x xs)
  show ?case
  proof (cases "measure_oracle L x (s x)")
    case (Inl e)
    with Cons.prems show ?thesis by simp
  next
    case (Inr m)
    let ?st = "st\<lparr>measurement := Some m, observations := observations st @ [(x, m)],
                   iter_n := iter_n st + 1\<rparr>"
    from Cons.prems(1) Inr have "for_samples L xs ?st = (r, st')" by simp
    moreover have "measurement ?st = last_measurement (observations ?st)"
      by (simp add: last_measurement_def)
    ultimately show ?thesis by (rule Cons.IH)
  qed
qed

lemma for_samples_ledger:
  "for_samples L xs st = (None, st') \<Longrightarrow>
     \<exists>ms. length ms = length xs \<and> observations st' = observations st @ zip xs ms \<and>
          list_all2 (\<lambda>x m. measure_oracle L x (s x) = Inr m) xs ms \<and>
          iter_n st' = iter_n st + int (length xs)"
proof (induction xs arbitrary: st)
  case Nil
  then show ?case by simp
next
  case (Cons x xs)
  from Cons.prems obtain m where m: "measure_oracle L x (s x) = Inr m"
    by (auto split: sum.splits)
  let ?st = "st\<lparr>measurement := Some m, observations := observations st @ [(x, m)],
                 iter_n := iter_n st + 1\<rparr>"
  from Cons.prems m have "for_samples L xs ?st = (None, st')" by simp
  from Cons.IH [OF this] obtain ms where
    ms: "length ms = length xs" "observations st' = observations ?st @ zip xs ms"
        "list_all2 (\<lambda>x m. measure_oracle L x (s x) = Inr m) xs ms"
        "iter_n st' = iter_n ?st + int (length xs)"
    by blast
  show ?case
    by (rule exI [of _ "m # ms"]) (use ms m in simp)
qed

lemma for_samples_failure:
  "for_samples L xs st = (Some e, st') \<Longrightarrow>
     \<exists>measured ms rest. xs = measured @ rest \<and> rest \<noteq> [] \<and> length ms = length measured \<and>
        observations st' = observations st @ zip measured ms \<and>
        list_all2 (\<lambda>x m. measure_oracle L x (s x) = Inr m) measured ms \<and>
        measure_oracle L (hd rest) (s (hd rest)) = Inl e"
proof (induction xs arbitrary: st)
  case Nil
  then show ?case by simp
next
  case (Cons x xs)
  show ?case
  proof (cases "measure_oracle L x (s x)")
    case (Inl e')
    with Cons.prems have "e' = e" "st' = st" by simp_all
    with Inl show ?thesis
      by (intro exI [of _ "[]"] exI [of _ "x # xs"]) simp
  next
    case (Inr m)
    let ?st = "st\<lparr>measurement := Some m, observations := observations st @ [(x, m)],
                   iter_n := iter_n st + 1\<rparr>"
    from Cons.prems Inr have "for_samples L xs ?st = (Some e, st')" by simp
    from Cons.IH [OF this] obtain dn ms rest where
      r: "xs = dn @ rest" "rest \<noteq> []" "length ms = length dn"
         "observations st' = observations ?st @ zip dn ms"
         "list_all2 (\<lambda>x m. measure_oracle L x (s x) = Inr m) dn ms"
         "measure_oracle L (hd rest) (s (hd rest)) = Inl e"
      by blast
    show ?thesis
      by (rule exI [of _ "x # dn"], rule exI [of _ "m # ms"], rule exI [of _ rest])
         (use r Inr in simp)
  qed
qed

lemma convergence_check_frame:
  "observations (outcome_state (convergence_check cfg P L samples st)) = observations st \<and>
   COST (outcome_state (convergence_check cfg P L samples st)) = COST st \<and>
   iter_n (outcome_state (convergence_check cfg P L samples st)) = iter_n st \<and>
   measurement (outcome_state (convergence_check cfg P L samples st)) = measurement st"
  by (simp add: convergence_check_def Let_def split: sum.splits list.splits option.splits prod.splits)

lemma request_and_measure_COST:
  "request_and_measure cfg P L st = Inl (e, st') \<Longrightarrow> COST st' = COST st"
  "request_and_measure cfg P L st = Inr (samples, st') \<Longrightarrow> COST st' = COST st"
  by (auto simp: request_and_measure_def split: sum.splits prod.splits option.splits
      dest!: for_samples_frame)

lemma loop_body_COST: "COST (outcome_state (loop_body cfg P L st)) = COST st"
  by (auto simp: loop_body_def convergence_check_frame request_and_measure_COST split: sum.splits prod.splits)

section \<open>Facts about \<^verbatim>\<open>np.amin\<close>\<close>

lemma float_le_trans: "float_le a b \<Longrightarrow> float_le b c \<Longrightarrow> float_le a c"
  by (cases a; cases b; cases c) (auto simp: float_le_def)

lemma float_le_refl: "a \<noteq> NaN \<Longrightarrow> float_le a a"
  by (cases a) (auto simp: float_le_def)

lemma float_le_total: "a \<noteq> NaN \<Longrightarrow> b \<noteq> NaN \<Longrightarrow> \<not> float_lt b a \<Longrightarrow> float_le a b"
  by (cases a; cases b) (auto simp: float_le_def)

lemma fmin2_props:
  assumes "fmin2 a b \<noteq> NaN"
  shows "a \<noteq> NaN" "b \<noteq> NaN" "fmin2 a b = a \<or> fmin2 a b = b"
        "float_le (fmin2 a b) a" "float_le (fmin2 a b) b"
  using assms
  by (auto simp: fmin2_def float_le_refl float_le_total split: if_splits intro: float_le_def [THEN iffD2])

lemma fold_fmin2:
  assumes "fold (\<lambda>y acc. fmin2 acc y) xs a = r" "r \<noteq> NaN"
  shows "r \<in> set (a # xs) \<and> (\<forall>y\<in>set (a # xs). float_le r y)"
  using assms
proof (induction xs arbitrary: a)
  case Nil
  then show ?case by (simp add: float_le_refl)
next
  case (Cons x xs)
  from Cons.prems have f: "fold (\<lambda>y acc. fmin2 acc y) xs (fmin2 a x) = r" by simp
  from Cons.IH [OF f Cons.prems(2)]
  have ih: "r \<in> set (fmin2 a x # xs)" "\<forall>y\<in>set (fmin2 a x # xs). float_le r y" by simp_all
  from ih(2) have le: "float_le r (fmin2 a x)" by simp
  have nn: "fmin2 a x \<noteq> NaN"
    using le by (cases r) (auto simp: float_le_def)
  from fmin2_props [OF nn] le ih show ?case
    by (auto intro: float_le_trans)
qed

lemma amin_least:
  assumes "amin gaps = Inr m" "m \<noteq> NaN"
  shows "m \<in> set gaps \<and> (\<forall>g\<in>set gaps. float_le m g)"
proof (cases gaps)
  case Nil
  with assms show ?thesis by simp
next
  case (Cons x xs)
  with assms have "fold (\<lambda>y acc. fmin2 acc y) xs x = m" by simp
  from fold_fmin2 [OF this assms(2)] Cons show ?thesis by simp
qed

lemma for_samples_last:
  "for_samples L xs st = (None, st') \<Longrightarrow> xs \<noteq> [] \<Longrightarrow>
     \<exists>m. measure_oracle L (last xs) (s (last xs)) = Inr m \<and> measurement st' = Some m \<and>
         observations st' \<noteq> [] \<and> last (observations st') = (last xs, m)"
proof (induction xs arbitrary: st)
  case Nil
  then show ?case by simp
next
  case (Cons x xs)
  from Cons.prems(1) obtain m where m: "measure_oracle L x (s x) = Inr m"
    by (auto split: sum.splits)
  let ?st = "st\<lparr>measurement := Some m, observations := observations st @ [(x, m)],
                 iter_n := iter_n st + 1\<rparr>"
  from Cons.prems(1) m have run: "for_samples L xs ?st = (None, st')" by simp
  show ?case
  proof (cases "xs = []")
    case True
    with run m show ?thesis by auto
  next
    case False
    from Cons.IH [OF run False] False show ?thesis by simp
  qed
qed

lemma request_and_measure_Inr:
  assumes "request_and_measure cfg P L st = Inr (samples, st1)"
  shows "\<exists>p2 st0. st0 = st\<lparr>planner_state := p2\<rparr> \<and> for_samples L samples st0 = (None, st1)"
  using assms
  by (auto simp: request_and_measure_def split: sum.splits prod.splits option.splits)

lemma request_and_measure_ignores_greedy:
  "request_and_measure cfg (P\<lparr>recommend_target_fidelity := g\<rparr>) L st = request_and_measure cfg P L st"
  by (simp add: request_and_measure_def cong: sum.case_cong)

text \<open>What an exception leaves behind: the ledger of the start of the pass, extended by the
  samples of the batch measured before the failure, each with its own measurement, and the
  cost of the start of the pass.\<close>

lemma raise_keeps_committed_observations:
  assumes "loop_body cfg P L st = Raise e st'"
  shows "\<exists>measured ms. length ms = length measured \<and>
           observations st' = observations st @ zip measured ms \<and>
           list_all2 (\<lambda>x m. measure_oracle L x (s x) = Inr m) measured ms \<and>
           COST st' = COST st"
proof (cases "request_and_measure cfg P L st")
  case (Inl a)
  with assms have rm: "request_and_measure cfg P L st = Inl (e, st')"
    by (cases a) (simp add: loop_body_def)
  have cost: "COST st' = COST st" using request_and_measure_COST(1) [OF rm] .
  show ?thesis
  proof (cases "\<exists>samples p2.
      for_samples L samples (st\<lparr>planner_state := p2\<rparr>) = (Some e, st')")
    case True
    then obtain samples p2 where
      "for_samples L samples (st\<lparr>planner_state := p2\<rparr>) = (Some e, st')" by blast
    from for_samples_failure [OF this] cost show ?thesis by auto
  next
    case False
    with rm have "observations st' = observations st"
      by (auto simp: request_and_measure_def split: sum.splits prod.splits option.splits)
    with cost show ?thesis by (intro exI [of _ "[]"]) simp
  qed
next
  case (Inr b)
  obtain samples st1 where b: "b = (samples, st1)" by (cases b)
  from Inr b assms have chk: "convergence_check cfg P L samples st1 = Raise e st'"
    by (simp add: loop_body_def)
  from convergence_check_frame [of cfg P L samples st1] chk
  have same: "observations st' = observations st1" "COST st' = COST st1" by simp_all
  from request_and_measure_Inr [OF Inr [unfolded b]] obtain p2 where
    run: "for_samples L samples (st\<lparr>planner_state := p2\<rparr>) = (None, st1)" by blast
  from for_samples_ledger [OF run] for_samples_frame [OF run] same show ?thesis
    by auto
qed

section \<open>Facts about the fidelity request\<close>

lemma lits_distinct: "\<not> float_eq lit_1_0 lit_0_1" "lit_1_0 \<noteq> lit_0_1"
  by (simp_all add: lit_1_0_def lit_0_1_def)

lemma asked_fidelity_from_index:
  assumes "NUM_CHEAP cfg \<noteq> 0"
  shows "request_and_measure cfg P LOOKUP st =
         request_and_measure cfg
           (P\<lparr>set_ask_fidelity :=
                (\<lambda>requested. set_ask_fidelity P
                   (if iter_n st mod NUM_CHEAP cfg = 0 then lit_1_0 else lit_0_1))\<rparr>)
           LOOKUP st"
  using assms
  by (cases "iter_n st mod NUM_CHEAP cfg = 0")
     (simp_all add: request_and_measure_def ask_fidelity_def cong: sum.case_cong)

section \<open>Facts about the loop as a whole\<close>

text \<open>\<^verbatim>\<open>measurement\<close> is bound exactly when the ledger is not empty, and then holds the
  measurement of its last entry: the fact is kept by every pass.\<close>

lemma passes_last:
  "passes (Suc n) cfg P L st0 = Some st \<Longrightarrow>
     \<exists>prev. passes n cfg P L st0 = Some prev \<and> COST prev < COST_BUDGET cfg \<and>
            loop_body cfg P L prev = Continue st"
proof (induction n arbitrary: st0)
  case 0
  then show ?case by (auto split: if_splits outcome.splits)
next
  case (Suc n)
  from Suc.prems obtain st1 where
    first: "COST st0 < COST_BUDGET cfg" "loop_body cfg P L st0 = Continue st1"
    and rest: "passes (Suc n) cfg P L st1 = Some st"
    by (auto split: if_splits outcome.splits)
  from Suc.IH [OF rest] obtain prev where
    "passes n cfg P L st1 = Some prev" "COST prev < COST_BUDGET cfg"
    "loop_body cfg P L prev = Continue st"
    by blast
  with first show ?case by auto
qed

lemma loop_body_last_measurement:
  assumes "measurement st = last_measurement (observations st)"
  shows "measurement (outcome_state (loop_body cfg P L st))
           = last_measurement (observations (outcome_state (loop_body cfg P L st)))"
proof (cases "request_and_measure cfg P L st")
  case (Inl a)
  obtain e st' where a: "a = (e, st')" by (cases a)
  from Inl a have "measurement st' = last_measurement (observations st')"
    using assms
    by (auto simp: request_and_measure_def split: sum.splits prod.splits option.splits
        dest: for_samples_last_measurement)
  with Inl a show ?thesis by (simp add: loop_body_def)
next
  case (Inr b)
  obtain samples st1 where b: "b = (samples, st1)" by (cases b)
  from request_and_measure_Inr [OF Inr [unfolded b]] obtain p2 where
    "for_samples L samples (st\<lparr>planner_state := p2\<rparr>) = (None, st1)" by blast
  from for_samples_last_measurement [OF this] assms
  have "measurement st1 = last_measurement (observations st1)" by simp
  with Inr b show ?thesis by (simp add: loop_body_def convergence_check_frame)
qed

lemma passes_last_measurement:
  "passes n cfg P L st0 = Some st \<Longrightarrow> measurement st0 = last_measurement (observations st0) \<Longrightarrow>
     measurement st = last_measurement (observations st)"
proof (induction n arbitrary: st0)
  case 0
  then show ?case by simp
next
  case (Suc n)
  from Suc.prems(1) obtain st1 where
    first: "loop_body cfg P L st0 = Continue st1" and rest: "passes n cfg P L st1 = Some st"
    by (auto split: if_splits outcome.splits)
  from loop_body_last_measurement [OF Suc.prems(2), of cfg P L] first
  have "measurement st1 = last_measurement (observations st1)" by simp
  from Suc.IH [OF rest this] show ?case .
qed

lemma continue_in_init_phase:
  assumes "loop_body cfg P L prev = Continue st"
    and "int (length (observations st)) \<le> NUM_INIT_DESIGN cfg"
  shows "measurement st \<noteq> None"
proof -
  from assms(1) obtain samples st1 where
    chk: "convergence_check cfg P L samples st1 = Continue st"
    by (auto simp: loop_body_def split: sum.splits prod.splits)
  from convergence_check_frame [of cfg P L samples st1] chk
  have same: "observations st = observations st1" "measurement st = measurement st1" by simp_all
  with assms(2) chk show ?thesis
    by (auto simp: convergence_check_def split: option.splits)
qed

text \<open>The scripted planner with an empty script keeps the loop going for ever: every pass
  ends at its last statement, and \<^verbatim>\<open>COST\<close> is still what it was.\<close>

lemma s_perovskite: "s (perovskite fidelity c a) = fidelity"
  by (simp add: perovskite_def)

lemma measure_pb_i:
  "measure_oracle demo_lookup (perovskite lit_1_0 ''Pb'' ''I'') lit_1_0 = Inr (Fin (21 / 10))"
  "measure_oracle demo_lookup (perovskite lit_0_1 ''Pb'' ''I'') lit_0_1 = Inr (Fin (8 / 5))"
  by code_simp+

lemma scripted_pass_continues:
  assumes "script (planner_state st) = []"
    and "greedy (planner_state st) = [perovskite lit_1_0 ''Pb'' ''I'']"
  shows "\<exists>st'. loop_body notebook_config scripted_planner demo_lookup st = Continue st' \<and>
           COST st' = COST st \<and> script (planner_state st') = [] \<and>
           greedy (planner_state st') = [perovskite lit_1_0 ''Pb'' ''I'']"
proof (cases "iter_n st mod 8 = 0")
  case True
  with assms show ?thesis
    by (simp add: loop_body_def request_and_measure_def ask_fidelity_def convergence_check_def
        scripted_planner_def notebook_config_def s_perovskite measure_pb_i Let_def)
next
  case False
  with assms show ?thesis
    by (simp add: loop_body_def request_and_measure_def ask_fidelity_def convergence_check_def
        scripted_planner_def notebook_config_def s_perovskite measure_pb_i Let_def)
qed

lemma scripted_loop_returns_nothing:
  assumes "experiment_loop cfg P LOOKUP st = Some y"
  shows "\<not> (cfg = notebook_config \<and> P = scripted_planner \<and> LOOKUP = demo_lookup \<and>
            COST st = 0 \<and> script (planner_state st) = [] \<and>
            greedy (planner_state st) = [perovskite lit_1_0 ''Pb'' ''I''])"
proof -
  let ?bad = "\<lambda>x (y :: scripted result).
     \<not> (fst (fst (fst x)) = notebook_config \<and> snd (fst (fst x)) = scripted_planner \<and>
        snd (fst x) = demo_lookup \<and> COST (snd x) = 0 \<and> script (planner_state (snd x)) = [] \<and>
        greedy (planner_state (snd x)) = [perovskite lit_1_0 ''Pb'' ''I''])"
  have "?bad (((cfg, P), LOOKUP), st) y"
  proof (rule experiment_loop.raw_induct [where Pa = ?bad, OF _ assms])
    fix loop :: "config \<Rightarrow> scripted planner \<Rightarrow> lookup \<Rightarrow> scripted state \<Rightarrow> scripted result option"
    fix cfg P LOOKUP st y
    assume ih: "\<And>cfg P LOOKUP st y. loop cfg P LOOKUP st = Some y \<Longrightarrow> ?bad (((cfg, P), LOOKUP), st) y"
      and unf: "(if COST st < COST_BUDGET cfg then
                   (case loop_body cfg P LOOKUP st of
                      Continue st' \<Rightarrow> loop cfg P LOOKUP st'
                    | Break st' \<Rightarrow> Some (Converged st')
                    | Raise e st' \<Rightarrow> Some (Failed e st'))
                 else Some (BudgetExhausted st)) = Some y"
    show "?bad (((cfg, P), LOOKUP), st) y"
    proof (rule ccontr)
      assume "\<not> ?bad (((cfg, P), LOOKUP), st) y"
      then have c: "cfg = notebook_config" "P = scripted_planner" "LOOKUP = demo_lookup"
        and i: "COST st = 0" "script (planner_state st) = []"
               "greedy (planner_state st) = [perovskite lit_1_0 ''Pb'' ''I'']"
        by simp_all
      from scripted_pass_continues [OF i(2,3)] obtain st' where
        st': "loop_body notebook_config scripted_planner demo_lookup st = Continue st'"
             "COST st' = COST st" "script (planner_state st') = []"
             "greedy (planner_state st') = [perovskite lit_1_0 ''Pb'' ''I'']"
        by blast
      from unf c i st' have "loop notebook_config scripted_planner demo_lookup st' = Some y"
        by (simp add: notebook_config_def)
      from ih [OF this] st' i show False by simp
    qed
  qed
  then show ?thesis by simp
qed

text \<open>
  The \<^verbatim>\<open>else\<close> branch after a non-empty batch: the measurement of the last sample of the
  batch is the last ledger entry and is appended to the trace; the \<^verbatim>\<open>break\<close> is taken
  exactly when that measurement equals \<^verbatim>\<open>min_hse06_bandgap\<close> and \<^verbatim>\<open>samples[0].s\<close> is
  1.0; the greedy recommendation of the planner plays no part. The greedy recommendation is
  asked for exactly when the observation count exceeds \<^verbatim>\<open>NUM_INIT_DESIGN\<close>.
\<close>

lemma init_phase_after_batch:
  "(request_and_measure cfg P LOOKUP st = Inr (samples, st1) \<and> samples \<noteq> [] \<and>
    int (length (observations st1)) \<le> NUM_INIT_DESIGN cfg \<longrightarrow>
      (\<exists>m. measure_oracle LOOKUP (last samples) (s (last samples)) = Inr m \<and>
           last (observations st1) = (last samples, m) \<and>
           outcome_state (loop_body cfg P LOOKUP st)
             = st1\<lparr>target_rec_measurements := target_rec_measurements st1 @ [m]\<rparr> \<and>
           ((\<exists>st'. loop_body cfg P LOOKUP st = Break st') \<longleftrightarrow>
              float_eq m (min_hse06_bandgap cfg) \<and> float_eq (s (hd samples)) lit_1_0) \<and>
           ((\<exists>st'. loop_body cfg P LOOKUP st = Continue st') \<longleftrightarrow>
              \<not> (float_eq m (min_hse06_bandgap cfg) \<and> float_eq (s (hd samples)) lit_1_0)) \<and>
           (\<forall>g. loop_body cfg (P\<lparr>recommend_target_fidelity := g\<rparr>) LOOKUP st
                  = loop_body cfg P LOOKUP st))) \<and>
   ((convergence_check cfg
       (P\<lparr>recommend_target_fidelity := (\<lambda>batch_size obs p. Inl PlannerError)\<rparr>) LOOKUP batch st2
       = Raise PlannerError st2)
     \<longleftrightarrow> NUM_INIT_DESIGN cfg < int (length (observations st2)))"
proof -
  have part1: "\<exists>m. measure_oracle LOOKUP (last samples) (s (last samples)) = Inr m \<and>
           last (observations st1) = (last samples, m) \<and>
           outcome_state (loop_body cfg P LOOKUP st)
             = st1\<lparr>target_rec_measurements := target_rec_measurements st1 @ [m]\<rparr> \<and>
           ((\<exists>st'. loop_body cfg P LOOKUP st = Break st') \<longleftrightarrow>
              float_eq m (min_hse06_bandgap cfg) \<and> float_eq (s (hd samples)) lit_1_0) \<and>
           ((\<exists>st'. loop_body cfg P LOOKUP st = Continue st') \<longleftrightarrow>
              \<not> (float_eq m (min_hse06_bandgap cfg) \<and> float_eq (s (hd samples)) lit_1_0)) \<and>
           (\<forall>g. loop_body cfg (P\<lparr>recommend_target_fidelity := g\<rparr>) LOOKUP st
                  = loop_body cfg P LOOKUP st)"
    if rm: "request_and_measure cfg P LOOKUP st = Inr (samples, st1)"
      and ne: "samples \<noteq> []"
      and init: "int (length (observations st1)) \<le> NUM_INIT_DESIGN cfg"
  proof -
    from request_and_measure_Inr [OF rm] obtain st0 where
      "for_samples LOOKUP samples st0 = (None, st1)" by blast
    from for_samples_last [OF this ne] obtain m where
      m: "measure_oracle LOOKUP (last samples) (s (last samples)) = Inr m"
         "measurement st1 = Some m" "last (observations st1) = (last samples, m)"
      by blast
    from ne obtain first rest where sm: "samples = first # rest" by (cases samples) auto
    have body: "loop_body cfg Q LOOKUP st = convergence_check cfg Q LOOKUP samples st1"
      if "request_and_measure cfg Q LOOKUP st = Inr (samples, st1)" for Q :: "'a planner"
      using that by (simp add: loop_body_def)
    have chk: "convergence_check cfg Q LOOKUP samples st1 =
        (if float_eq m (min_hse06_bandgap cfg) \<and> float_eq (s (hd samples)) lit_1_0
         then Break (st1\<lparr>target_rec_measurements := target_rec_measurements st1 @ [m]\<rparr>)
         else Continue (st1\<lparr>target_rec_measurements := target_rec_measurements st1 @ [m]\<rparr>))"
      for Q :: "'a planner"
      using init m(2) sm by (simp add: convergence_check_def Let_def)
    have g: "loop_body cfg (P\<lparr>recommend_target_fidelity := g\<rparr>) LOOKUP st = loop_body cfg P LOOKUP st"
      for g
      using body [of P] body [of "P\<lparr>recommend_target_fidelity := g\<rparr>"] rm
        chk [of P] chk [of "P\<lparr>recommend_target_fidelity := g\<rparr>"]
      by (simp add: request_and_measure_ignores_greedy)
    from body [OF rm] chk [of P] m g show ?thesis
      by (intro exI [of _ m]) auto
  qed
  have part2: "(convergence_check cfg
       (P\<lparr>recommend_target_fidelity := (\<lambda>batch_size obs p. Inl PlannerError)\<rparr>) LOOKUP batch st2
       = Raise PlannerError st2)
     \<longleftrightarrow> NUM_INIT_DESIGN cfg < int (length (observations st2))"
    by (auto simp: convergence_check_def Let_def split: option.splits list.splits if_splits)
  from part1 part2 show ?thesis by blast
qed

lemma low_is_not_high: "float_eq fidelity lit_0_1 \<Longrightarrow> \<not> float_eq fidelity lit_1_0"
  by (cases fidelity) (auto simp: lit_0_1_def lit_1_0_def)

section \<open>The claims\<close>

subsection \<open>C1: cost accounting\<close>

text \<open>
  Claim C1 says that every recorded sample adds the unit cost of its fidelity to the
  accumulated cost, so that the scenario (budget 50, cadence 8, costs 1 and 10) stands at 17
  after iteration 7. The cell sets \<^verbatim>\<open>COST = 0.\<close> before the loop and never assigns it again.
  Evaluated on the scenario, with a planner that proposes one sample at the requested
  fidelity: after eight passes \<^verbatim>\<open>iter_\<close> is 8, the recorded fidelities are one high and
  seven low, and \<^verbatim>\<open>COST\<close> is 0.
\<close>

theorem cost_stays_zero_in_scenario:
  "map_option COST
     (passes 8 notebook_config scripted_planner demo_lookup (scripted_start [] [])) = Some 0 \<and>
   map_option iter_n
     (passes 8 notebook_config scripted_planner demo_lookup (scripted_start [] [])) = Some 8 \<and>
   map_option (\<lambda>st. map (\<lambda>ob. s (fst ob)) (observations st))
     (passes 8 notebook_config scripted_planner demo_lookup (scripted_start [] []))
     = Some [lit_1_0, lit_0_1, lit_0_1, lit_0_1, lit_0_1, lit_0_1, lit_0_1, lit_0_1]"
  by code_simp

subsection \<open>C2: termination\<close>

text \<open>
  Claim C2 says that the loop always terminates, with the budget used up or with
  convergence. As \<^verbatim>\<open>COST\<close> never grows, the guard \<^verbatim>\<open>COST < COST_BUDGET\<close> never turns
  false: on the three-entry table, with the notebook's configuration and a planner that keeps
  proposing a compound that is not the optimum, the loop does not return.
\<close>

theorem scripted_loop_never_returns:
  "experiment_loop notebook_config scripted_planner demo_lookup
     (scripted_start [] [perovskite lit_1_0 ''Pb'' ''I'']) = None"
proof (cases "experiment_loop notebook_config scripted_planner demo_lookup
     (scripted_start [] [perovskite lit_1_0 ''Pb'' ''I''])")
  case None
  then show ?thesis .
next
  case (Some y)
  from scripted_loop_returns_nothing [OF Some] show ?thesis
    by (simp add: scripted_start_def initial_state_def)
qed

subsection \<open>C3: early termination on the known optimum\<close>

text \<open>
  Claim C3. When a pass of the loop reaches the greedy target-fidelity recommendation and the
  measurement of the recommended sample compares equal to \<^verbatim>\<open>min_hse06_bandgap\<close>, the loop
  ends there with the converged outcome, whatever the accumulated cost and the budget are
  (the pass has been entered, so the cost is below the budget). The trace has received the
  measurement; ledger and cost are as the \<^verbatim>\<open>for\<close> loop left them.
\<close>

theorem greedy_match_converges:
  assumes "COST st < COST_BUDGET cfg"
    and "request_and_measure cfg P LOOKUP st = Inr (samples, st1)"
    and "NUM_INIT_DESIGN cfg < int (length (observations st1))"
    and "recommend_target_fidelity P 1 (observations st1) (planner_state st1)
           = Inr (rec_sample # others, p')"
    and "measure_oracle LOOKUP rec_sample (s rec_sample) = Inr rec_measurement"
    and "float_eq rec_measurement (min_hse06_bandgap cfg)"
  shows "experiment_loop cfg P LOOKUP st =
           Some (Converged (st1\<lparr>planner_state := p',
                               target_rec_measurements :=
                                 target_rec_measurements st1 @ [rec_measurement]\<rparr>))"
proof -
  from assms(3-6) have
    "convergence_check cfg P LOOKUP samples st1 =
       Break (st1\<lparr>planner_state := p',
                  target_rec_measurements := target_rec_measurements st1 @ [rec_measurement]\<rparr>)"
    by (simp add: convergence_check_def Let_def)
  with assms(2) have
    "loop_body cfg P LOOKUP st =
       Break (st1\<lparr>planner_state := p',
                  target_rec_measurements := target_rec_measurements st1 @ [rec_measurement]\<rparr>)"
    by (simp add: loop_body_def)
  with assms(1) show ?thesis
    by (subst experiment_loop.simps) simp
qed

text \<open>The theorem at work for C3: with no initial design phase the first pass already asks for
  the greedy recommendation, the planner recommends the optimum, and the loop ends converged
  with a cost of 0 out of 50.\<close>

theorem greedy_match_converges_witness:
  "experiment_loop (notebook_config\<lparr>NUM_INIT_DESIGN := 0\<rparr>) scripted_planner demo_lookup
     (scripted_start [] [perovskite lit_1_0 ''Sn'' ''I''])
   = Some (Converged
       \<lparr>COST = 0, iter_n = 1, target_rec_measurements = [Fin (4 / 5)],
         measurement = Some (Fin (21 / 10)),
         observations = [(perovskite lit_1_0 ''Pb'' ''I'', Fin (21 / 10))],
         planner_state = \<lparr>asked = lit_1_0, script = [],
                           greedy = [perovskite lit_1_0 ''Sn'' ''I'']\<rparr>\<rparr>)"
proof -
  let ?cfg = "notebook_config\<lparr>NUM_INIT_DESIGN := 0\<rparr>"
  let ?p = "\<lparr>asked = lit_1_0, script = [], greedy = [perovskite lit_1_0 ''Sn'' ''I'']\<rparr>"
  let ?st1 = "\<lparr>COST = 0, iter_n = 1, target_rec_measurements = [],
         measurement = Some (Fin (21 / 10)),
         observations = [(perovskite lit_1_0 ''Pb'' ''I'', Fin (21 / 10))],
         planner_state = ?p\<rparr>"
  let ?st = "scripted_start [] [perovskite lit_1_0 ''Sn'' ''I'']"
  have 1: "COST ?st < COST_BUDGET ?cfg"
    by (simp add: scripted_start_def initial_state_def notebook_config_def)
  have 2: "request_and_measure ?cfg scripted_planner demo_lookup ?st
             = Inr ([perovskite lit_1_0 ''Pb'' ''I''], ?st1)"
    by code_simp
  have 3: "NUM_INIT_DESIGN ?cfg < int (length (observations ?st1))"
    by (simp add: notebook_config_def)
  have 4: "recommend_target_fidelity scripted_planner 1 (observations ?st1) (planner_state ?st1)
             = Inr (perovskite lit_1_0 ''Sn'' ''I'' # [], ?p)"
    by (simp add: scripted_planner_def)
  have 5: "measure_oracle demo_lookup (perovskite lit_1_0 ''Sn'' ''I'')
             (s (perovskite lit_1_0 ''Sn'' ''I'')) = Inr (Fin (4 / 5))"
    by code_simp
  have 6: "float_eq (Fin (4 / 5)) (min_hse06_bandgap ?cfg)"
    by (simp add: notebook_config_def)
  from greedy_match_converges [OF 1 2 3 4 5 6] show ?thesis by simp
qed

subsection \<open>C4: the fidelity schedule\<close>

text \<open>
  Claim C4. For an iteration index \<open>i \<ge> 0\<close> and a cadence \<open>k \<ge> 1\<close> the fidelity
  requested is 1.0 exactly when \<open>i mod k = 0\<close> and 0.1 exactly when it is not, and the two
  are different floats. The request is a function of the index and the cadence alone: in a
  pass that starts with \<^verbatim>\<open>iter_ = i\<close>, the planner may as well ignore the argument of
  \<^verbatim>\<open>set_ask_fidelity\<close> and take the scheduled value.
\<close>

theorem fidelity_schedule:
  assumes "0 \<le> i" and "1 \<le> k"
  shows "(ask_fidelity i k = Inr lit_1_0 \<longleftrightarrow> i mod k = 0) \<and>
         (ask_fidelity i k = Inr lit_0_1 \<longleftrightarrow> i mod k \<noteq> 0) \<and>
         \<not> float_eq lit_1_0 lit_0_1 \<and>
         (iter_n st = i \<and> NUM_CHEAP cfg = k \<longrightarrow>
            request_and_measure cfg P LOOKUP st =
            request_and_measure cfg
              (P\<lparr>set_ask_fidelity :=
                   (\<lambda>requested. set_ask_fidelity P (if i mod k = 0 then lit_1_0 else lit_0_1))\<rparr>)
              LOOKUP st)"
proof -
  from assms(2) have k: "k \<noteq> 0" by simp
  have a: "ask_fidelity i k = Inr lit_1_0 \<longleftrightarrow> i mod k = 0"
    using k lits_distinct(2) by (simp add: ask_fidelity_def)
  have b: "ask_fidelity i k = Inr lit_0_1 \<longleftrightarrow> i mod k \<noteq> 0"
    using k lits_distinct(2) by (auto simp: ask_fidelity_def)
  have c: "iter_n st = i \<and> NUM_CHEAP cfg = k \<longrightarrow>
            request_and_measure cfg P LOOKUP st =
            request_and_measure cfg
              (P\<lparr>set_ask_fidelity :=
                   (\<lambda>requested. set_ask_fidelity P (if i mod k = 0 then lit_1_0 else lit_0_1))\<rparr>)
              LOOKUP st"
    using k asked_fidelity_from_index [of cfg P LOOKUP st] by blast
  from a b c lits_distinct(1) show ?thesis by blast
qed

text \<open>The schedule of C4 at cadence 8: indices 0 and 8 are high, 3 and 7 are low.\<close>

theorem fidelity_schedule_witness:
  "(0::int) \<le> 8 \<and> (1::int) \<le> 8 \<and>
   ask_fidelity 8 8 = Inr lit_1_0 \<and> ask_fidelity 0 8 = Inr lit_1_0 \<and>
   ask_fidelity 3 8 = Inr lit_0_1 \<and> ask_fidelity 7 8 = Inr lit_0_1"
proof -
  have h: "(0::int) \<le> 8" "(0::int) \<le> 0" "(0::int) \<le> 3" "(0::int) \<le> 7" "(1::int) \<le> 8"
    by simp_all
  from fidelity_schedule [OF h(1) h(5), THEN conjunct1]
  have a: "ask_fidelity 8 8 = Inr lit_1_0" by simp
  from fidelity_schedule [OF h(2) h(5), THEN conjunct1]
  have b: "ask_fidelity 0 8 = Inr lit_1_0" by simp
  from fidelity_schedule [OF h(3) h(5), THEN conjunct2, THEN conjunct1]
  have c: "ask_fidelity 3 8 = Inr lit_0_1" by simp
  from fidelity_schedule [OF h(4) h(5), THEN conjunct2, THEN conjunct1]
  have d: "ask_fidelity 7 8 = Inr lit_0_1" by simp
  from a b c d show ?thesis by simp
qed

subsection \<open>C5: what a failure leaves behind\<close>

text \<open>
  Claim C5 says that after a failure no sample is in the ledger without its measurement and
  its cost update. A batch of two high-fidelity samples, the second one absent from the
  table: the lookup raises \<^verbatim>\<open>KeyError\<close>, nothing catches it, and the state left behind
  has the first sample in the ledger with its measurement while \<^verbatim>\<open>COST\<close> is still 0.
\<close>

theorem ledger_entry_without_cost:
  "loop_body notebook_config scripted_planner demo_lookup
     (scripted_start [[perovskite lit_1_0 ''Pb'' ''I'', perovskite lit_1_0 ''Pb'' ''Cl'']] [])
   = Raise KeyError
       \<lparr>COST = 0, iter_n = 1, target_rec_measurements = [],
         measurement = Some (Fin (21 / 10)),
         observations = [(perovskite lit_1_0 ''Pb'' ''I'', Fin (21 / 10))],
         planner_state = \<lparr>asked = lit_1_0, script = [], greedy = []\<rparr>\<rparr>"
  by code_simp

subsection \<open>C6: the initial design phase\<close>

text \<open>
  Claim C6. The planner is built with \<^verbatim>\<open>batch_size=1\<close>, so a batch is one sample, the one
  just measured, and \<^verbatim>\<open>samples[0]\<close> is that sample. When the observation count after
  recording it has not exceeded \<^verbatim>\<open>NUM_INIT_DESIGN\<close>: the pass is the same whatever the
  greedy recommendation of the planner would do (none is asked for); the just-recorded
  measurement, which is the last ledger entry, is appended to
  \<^verbatim>\<open>target_rec_measurements\<close> and nothing else changes; the pass ends at the
  \<^verbatim>\<open>break\<close> exactly when that measurement equals \<^verbatim>\<open>min_hse06_bandgap\<close> and the fidelity
  of the sample is 1.0, and ends normally otherwise, so a sample of fidelity 0.1, or of any
  fidelity other than 1.0, never ends the loop in this phase. The greedy recommendation is
  asked for exactly when the observation count exceeds \<^verbatim>\<open>NUM_INIT_DESIGN\<close>: a planner
  whose greedy recommendation fails makes the check fail with that failure in that case and
  in no other.
\<close>

theorem init_phase_single_sample:
  "(request_and_measure cfg P LOOKUP st = Inr ([sample], st1) \<and>
    int (length (observations st1)) \<le> NUM_INIT_DESIGN cfg \<longrightarrow>
      (\<exists>m. measure_oracle LOOKUP sample (s sample) = Inr m \<and>
           last (observations st1) = (sample, m) \<and>
           outcome_state (loop_body cfg P LOOKUP st)
             = st1\<lparr>target_rec_measurements := target_rec_measurements st1 @ [m]\<rparr> \<and>
           ((\<exists>st'. loop_body cfg P LOOKUP st = Break st') \<longleftrightarrow>
              float_eq m (min_hse06_bandgap cfg) \<and> float_eq (s sample) lit_1_0) \<and>
           ((\<exists>st'. loop_body cfg P LOOKUP st = Continue st') \<longleftrightarrow>
              \<not> (float_eq m (min_hse06_bandgap cfg) \<and> float_eq (s sample) lit_1_0)) \<and>
           (float_eq (s sample) lit_0_1 \<or> \<not> float_eq (s sample) lit_1_0 \<longrightarrow>
              (\<exists>st'. loop_body cfg P LOOKUP st = Continue st') \<and>
              (\<forall>st'. loop_body cfg P LOOKUP st \<noteq> Break st')) \<and>
           (\<forall>g. loop_body cfg (P\<lparr>recommend_target_fidelity := g\<rparr>) LOOKUP st
                  = loop_body cfg P LOOKUP st))) \<and>
   ((convergence_check cfg
       (P\<lparr>recommend_target_fidelity := (\<lambda>batch_size obs p. Inl PlannerError)\<rparr>) LOOKUP batch st2
       = Raise PlannerError st2)
     \<longleftrightarrow> NUM_INIT_DESIGN cfg < int (length (observations st2)))"
proof -
  have part1: "\<exists>m. measure_oracle LOOKUP sample (s sample) = Inr m \<and>
           last (observations st1) = (sample, m) \<and>
           outcome_state (loop_body cfg P LOOKUP st)
             = st1\<lparr>target_rec_measurements := target_rec_measurements st1 @ [m]\<rparr> \<and>
           ((\<exists>st'. loop_body cfg P LOOKUP st = Break st') \<longleftrightarrow>
              float_eq m (min_hse06_bandgap cfg) \<and> float_eq (s sample) lit_1_0) \<and>
           ((\<exists>st'. loop_body cfg P LOOKUP st = Continue st') \<longleftrightarrow>
              \<not> (float_eq m (min_hse06_bandgap cfg) \<and> float_eq (s sample) lit_1_0)) \<and>
           (float_eq (s sample) lit_0_1 \<or> \<not> float_eq (s sample) lit_1_0 \<longrightarrow>
              (\<exists>st'. loop_body cfg P LOOKUP st = Continue st') \<and>
              (\<forall>st'. loop_body cfg P LOOKUP st \<noteq> Break st')) \<and>
           (\<forall>g. loop_body cfg (P\<lparr>recommend_target_fidelity := g\<rparr>) LOOKUP st
                  = loop_body cfg P LOOKUP st)"
    if rm: "request_and_measure cfg P LOOKUP st = Inr ([sample], st1)"
      and init: "int (length (observations st1)) \<le> NUM_INIT_DESIGN cfg"
  proof -
    from init_phase_after_batch
      [of cfg P LOOKUP st "[sample]" st1, THEN conjunct1] rm init
    obtain m where
      m: "measure_oracle LOOKUP sample (s sample) = Inr m"
         "last (observations st1) = (sample, m)"
         "outcome_state (loop_body cfg P LOOKUP st)
            = st1\<lparr>target_rec_measurements := target_rec_measurements st1 @ [m]\<rparr>"
         "(\<exists>st'. loop_body cfg P LOOKUP st = Break st') \<longleftrightarrow>
            float_eq m (min_hse06_bandgap cfg) \<and> float_eq (s sample) lit_1_0"
         "(\<exists>st'. loop_body cfg P LOOKUP st = Continue st') \<longleftrightarrow>
            \<not> (float_eq m (min_hse06_bandgap cfg) \<and> float_eq (s sample) lit_1_0)"
         "\<forall>g. loop_body cfg (P\<lparr>recommend_target_fidelity := g\<rparr>) LOOKUP st
                = loop_body cfg P LOOKUP st"
      by auto
    have low: "(\<exists>st'. loop_body cfg P LOOKUP st = Continue st') \<and>
               (\<forall>st'. loop_body cfg P LOOKUP st \<noteq> Break st')"
      if "float_eq (s sample) lit_0_1 \<or> \<not> float_eq (s sample) lit_1_0"
    proof -
      from that have "\<not> float_eq (s sample) lit_1_0" by (auto dest: low_is_not_high)
      with m(4,5) show ?thesis by blast
    qed
    from m low show ?thesis by (intro exI [of _ m]) blast
  qed
  from part1 init_phase_after_batch [of cfg P LOOKUP st "[sample]" st1 batch st2, THEN conjunct2]
  show ?thesis by blast
qed

text \<open>The theorem at work for C6: one low-fidelity sample whose measurement equals the optimum
  does not end the loop.\<close>

theorem init_phase_single_sample_witness:
  "request_and_measure notebook_config scripted_planner demo_lookup
     (scripted_start [[perovskite lit_0_1 ''Pb'' ''Br'']] [])
   = Inr ([perovskite lit_0_1 ''Pb'' ''Br''],
       \<lparr>COST = 0, iter_n = 1, target_rec_measurements = [],
         measurement = Some (Fin (4 / 5)),
         observations = [(perovskite lit_0_1 ''Pb'' ''Br'', Fin (4 / 5))],
         planner_state = \<lparr>asked = lit_1_0, script = [], greedy = []\<rparr>\<rparr>) \<and>
   int (length (observations
       \<lparr>COST = 0, iter_n = 1, target_rec_measurements = [],
         measurement = Some (Fin (4 / 5)),
         observations = [(perovskite lit_0_1 ''Pb'' ''Br'', Fin (4 / 5))],
         planner_state = \<lparr>asked = lit_1_0, script = [], greedy = []\<rparr>\<rparr>))
     \<le> NUM_INIT_DESIGN notebook_config \<and>
   float_eq (s (perovskite lit_0_1 ''Pb'' ''Br'')) lit_0_1 \<and>
   float_eq (Fin (4 / 5)) (min_hse06_bandgap notebook_config) \<and>
   (\<exists>st'. loop_body notebook_config scripted_planner demo_lookup
       (scripted_start [[perovskite lit_0_1 ''Pb'' ''Br'']] []) = Continue st') \<and>
   outcome_state (loop_body notebook_config scripted_planner demo_lookup
       (scripted_start [[perovskite lit_0_1 ''Pb'' ''Br'']] []))
   = \<lparr>COST = 0, iter_n = 1, target_rec_measurements = [Fin (4 / 5)],
       measurement = Some (Fin (4 / 5)),
       observations = [(perovskite lit_0_1 ''Pb'' ''Br'', Fin (4 / 5))],
       planner_state = \<lparr>asked = lit_1_0, script = [], greedy = []\<rparr>\<rparr>"
proof -
  let ?x = "perovskite lit_0_1 ''Pb'' ''Br''"
  let ?st = "scripted_start [[?x]] []"
  let ?st1 = "\<lparr>COST = 0, iter_n = 1, target_rec_measurements = [],
         measurement = Some (Fin (4 / 5)),
         observations = [(?x, Fin (4 / 5))],
         planner_state = \<lparr>asked = lit_1_0, script = [], greedy = []\<rparr>\<rparr>"
  have 1: "request_and_measure notebook_config scripted_planner demo_lookup ?st = Inr ([?x], ?st1)"
    by code_simp
  have 3: "int (length (observations ?st1)) \<le> NUM_INIT_DESIGN notebook_config"
    by (simp add: notebook_config_def)
  have 4: "measure_oracle demo_lookup ?x (s ?x) = Inr (Fin (4 / 5))"
    by code_simp
  have 5: "float_eq (Fin (4 / 5)) (min_hse06_bandgap notebook_config)"
    by (simp add: notebook_config_def)
  have 6: "float_eq (s ?x) lit_0_1"
    by (simp add: perovskite_def lit_0_1_def)
  from init_phase_single_sample
    [of notebook_config scripted_planner demo_lookup ?st ?x ?st1, THEN conjunct1] 1 3
  obtain m where
    m: "measure_oracle demo_lookup ?x (s ?x) = Inr m"
       "outcome_state (loop_body notebook_config scripted_planner demo_lookup ?st)
          = ?st1\<lparr>target_rec_measurements := target_rec_measurements ?st1 @ [m]\<rparr>"
       "float_eq (s ?x) lit_0_1 \<or> \<not> float_eq (s ?x) lit_1_0 \<longrightarrow>
          (\<exists>st'. loop_body notebook_config scripted_planner demo_lookup ?st = Continue st') \<and>
          (\<forall>st'. loop_body notebook_config scripted_planner demo_lookup ?st \<noteq> Break st')"
    by blast
  from m(1) 4 have "m = Fin (4 / 5)" by simp
  with m 6 have
    "\<exists>st'. loop_body notebook_config scripted_planner demo_lookup ?st = Continue st'"
    "outcome_state (loop_body notebook_config scripted_planner demo_lookup ?st)
       = ?st1\<lparr>target_rec_measurements := [Fin (4 / 5)]\<rparr>"
    by simp_all
  with 1 3 5 6 show ?thesis by simp
qed

subsection \<open>C7: the greedy measurement is not an observation\<close>

text \<open>
  Claim C7. In the steady state (the observation count exceeds \<^verbatim>\<open>NUM_INIT_DESIGN\<close>) the
  convergence check leaves the ledger, the accumulated cost, \<^verbatim>\<open>iter_\<close> and
  \<^verbatim>\<open>measurement\<close> as they are, however it ends; when the greedy sample is measured, its
  measurement is appended to \<^verbatim>\<open>target_rec_measurements\<close>.
\<close>

theorem greedy_measurement_frame:
  assumes "NUM_INIT_DESIGN cfg < int (length (observations st))"
  shows "observations (outcome_state (convergence_check cfg P LOOKUP samples st)) = observations st \<and>
         COST (outcome_state (convergence_check cfg P LOOKUP samples st)) = COST st \<and>
         iter_n (outcome_state (convergence_check cfg P LOOKUP samples st)) = iter_n st \<and>
         measurement (outcome_state (convergence_check cfg P LOOKUP samples st)) = measurement st \<and>
         (recommend_target_fidelity P 1 (observations st) (planner_state st)
            = Inr (rec_sample # others, p') \<and>
          measure_oracle LOOKUP rec_sample (s rec_sample) = Inr rec_measurement \<longrightarrow>
            target_rec_measurements (outcome_state (convergence_check cfg P LOOKUP samples st))
              = target_rec_measurements st @ [rec_measurement])"
  using assms
  by (simp add: convergence_check_frame) (simp add: convergence_check_def Let_def)

text \<open>The theorem at work for C7: one observation in the ledger, no initial design phase.\<close>

theorem greedy_measurement_frame_witness:
  "NUM_INIT_DESIGN (notebook_config\<lparr>NUM_INIT_DESIGN := 0\<rparr>)
     < int (length (observations
         (\<lparr>COST = 0, iter_n = 1, target_rec_measurements = [],
           measurement = Some (Fin (21 / 10)),
           observations = [(perovskite lit_1_0 ''Pb'' ''I'', Fin (21 / 10))],
           planner_state = \<lparr>asked = lit_1_0, script = [],
                             greedy = [perovskite lit_1_0 ''Sn'' ''I'']\<rparr>\<rparr>))) \<and>
   observations (outcome_state (convergence_check (notebook_config\<lparr>NUM_INIT_DESIGN := 0\<rparr>)
       scripted_planner demo_lookup [perovskite lit_1_0 ''Pb'' ''I'']
       \<lparr>COST = 0, iter_n = 1, target_rec_measurements = [],
         measurement = Some (Fin (21 / 10)),
         observations = [(perovskite lit_1_0 ''Pb'' ''I'', Fin (21 / 10))],
         planner_state = \<lparr>asked = lit_1_0, script = [],
                           greedy = [perovskite lit_1_0 ''Sn'' ''I'']\<rparr>\<rparr>))
     = [(perovskite lit_1_0 ''Pb'' ''I'', Fin (21 / 10))] \<and>
   COST (outcome_state (convergence_check (notebook_config\<lparr>NUM_INIT_DESIGN := 0\<rparr>)
       scripted_planner demo_lookup [perovskite lit_1_0 ''Pb'' ''I'']
       \<lparr>COST = 0, iter_n = 1, target_rec_measurements = [],
         measurement = Some (Fin (21 / 10)),
         observations = [(perovskite lit_1_0 ''Pb'' ''I'', Fin (21 / 10))],
         planner_state = \<lparr>asked = lit_1_0, script = [],
                           greedy = [perovskite lit_1_0 ''Sn'' ''I'']\<rparr>\<rparr>)) = 0 \<and>
   target_rec_measurements (outcome_state (convergence_check (notebook_config\<lparr>NUM_INIT_DESIGN := 0\<rparr>)
       scripted_planner demo_lookup [perovskite lit_1_0 ''Pb'' ''I'']
       \<lparr>COST = 0, iter_n = 1, target_rec_measurements = [],
         measurement = Some (Fin (21 / 10)),
         observations = [(perovskite lit_1_0 ''Pb'' ''I'', Fin (21 / 10))],
         planner_state = \<lparr>asked = lit_1_0, script = [],
                           greedy = [perovskite lit_1_0 ''Sn'' ''I'']\<rparr>\<rparr>)) = [Fin (4 / 5)]"
proof -
  let ?cfg = "notebook_config\<lparr>NUM_INIT_DESIGN := 0\<rparr>"
  let ?p = "\<lparr>asked = lit_1_0, script = [], greedy = [perovskite lit_1_0 ''Sn'' ''I'']\<rparr>"
  let ?st = "\<lparr>COST = 0, iter_n = 1, target_rec_measurements = [],
         measurement = Some (Fin (21 / 10)),
         observations = [(perovskite lit_1_0 ''Pb'' ''I'', Fin (21 / 10))],
         planner_state = ?p\<rparr>"
  have h: "NUM_INIT_DESIGN ?cfg < int (length (observations ?st))"
    by (simp add: notebook_config_def)
  have r: "recommend_target_fidelity scripted_planner 1 (observations ?st) (planner_state ?st)
             = Inr (perovskite lit_1_0 ''Sn'' ''I'' # [], ?p)"
    by (simp add: scripted_planner_def)
  have m: "measure_oracle demo_lookup (perovskite lit_1_0 ''Sn'' ''I'')
             (s (perovskite lit_1_0 ''Sn'' ''I'')) = Inr (Fin (4 / 5))"
    by code_simp
  from greedy_measurement_frame [OF h, of scripted_planner demo_lookup
      "[perovskite lit_1_0 ''Pb'' ''I'']" "perovskite lit_1_0 ''Sn'' ''I''" "[]" ?p "Fin (4 / 5)"]
    h r m
  show ?thesis by simp
qed

subsection \<open>C8: the configuration is not validated\<close>

text \<open>
  Claim C8 says that a cadence below 1, an empty fidelity set or a negative budget raises a
  configuration error before any pass runs. The notebook assigns the three constants and
  checks nothing. With a budget of \<open>-1\<close> and a cadence of 0 the run raises nothing at all:
  the guard of the loop is false at once and the cell ends normally.
\<close>

theorem negative_budget_raises_nothing:
  "experiment_loop
     \<lparr>COST_BUDGET = - 1, NUM_INIT_DESIGN = 10, NUM_CHEAP = 0, min_hse06_bandgap = Fin (4 / 5)\<rparr>
     scripted_planner demo_lookup (scripted_start [] [])
   = Some (BudgetExhausted (scripted_start [] []))"
  by (subst experiment_loop.simps) (simp add: scripted_start_def initial_state_def)

text \<open>
  Claim C8, amended. No configuration is rejected. With a budget that is not positive the
  body of the loop never runs and the run ends normally in its initial state. With a positive
  budget and cadence 0 the first pass raises \<^verbatim>\<open>ZeroDivisionError\<close> at
  \<^verbatim>\<open>iter_ % NUM_CHEAP\<close>, before the planner is called. A negative cadence raises nothing:
  the request is 1.0 when the cadence divides the index and 0.1 otherwise.
\<close>

theorem no_configuration_check:
  "(COST_BUDGET cfg \<le> 0 \<longrightarrow>
      experiment_loop cfg P LOOKUP (initial_state p) = Some (BudgetExhausted (initial_state p))) \<and>
   (0 < COST_BUDGET cfg \<and> NUM_CHEAP cfg = 0 \<longrightarrow>
      experiment_loop cfg P LOOKUP (initial_state p)
        = Some (Failed ZeroDivisionError (initial_state p))) \<and>
   (NUM_CHEAP cfg < 0 \<longrightarrow>
      ask_fidelity i (NUM_CHEAP cfg)
        = Inr (if i mod NUM_CHEAP cfg = 0 then lit_1_0 else lit_0_1))"
proof -
  have a: "experiment_loop cfg P LOOKUP (initial_state p) = Some (BudgetExhausted (initial_state p))"
    if "COST_BUDGET cfg \<le> 0"
    using that by (subst experiment_loop.simps) (simp add: initial_state_def)
  have b: "experiment_loop cfg P LOOKUP (initial_state p)
        = Some (Failed ZeroDivisionError (initial_state p))"
    if "0 < COST_BUDGET cfg" "NUM_CHEAP cfg = 0"
    using that
    by (subst experiment_loop.simps)
       (simp add: initial_state_def loop_body_def request_and_measure_def ask_fidelity_def)
  have c: "ask_fidelity i (NUM_CHEAP cfg)
        = Inr (if i mod NUM_CHEAP cfg = 0 then lit_1_0 else lit_0_1)"
    if "NUM_CHEAP cfg < 0"
    using that by (simp add: ask_fidelity_def)
  from a b c show ?thesis by blast
qed

text \<open>The theorem at work for C8: budget \<open>-5\<close>, cadence 0, cadence \<open>-8\<close>.\<close>

theorem no_configuration_check_witness:
  "experiment_loop (notebook_config\<lparr>COST_BUDGET := - 5\<rparr>) scripted_planner demo_lookup
     (initial_state \<lparr>asked = NaN, script = [], greedy = []\<rparr>)
     = Some (BudgetExhausted (initial_state \<lparr>asked = NaN, script = [], greedy = []\<rparr>)) \<and>
   experiment_loop (notebook_config\<lparr>NUM_CHEAP := 0\<rparr>) scripted_planner demo_lookup
     (initial_state \<lparr>asked = NaN, script = [], greedy = []\<rparr>)
     = Some (Failed ZeroDivisionError (initial_state \<lparr>asked = NaN, script = [], greedy = []\<rparr>)) \<and>
   ask_fidelity 1 (NUM_CHEAP (notebook_config\<lparr>NUM_CHEAP := - 8\<rparr>)) = Inr lit_0_1 \<and>
   ask_fidelity 16 (NUM_CHEAP (notebook_config\<lparr>NUM_CHEAP := - 8\<rparr>)) = Inr lit_1_0"
proof -
  have h1: "COST_BUDGET (notebook_config\<lparr>COST_BUDGET := - 5\<rparr>) \<le> 0" by simp
  have h2: "0 < COST_BUDGET (notebook_config\<lparr>NUM_CHEAP := 0\<rparr>) \<and>
            NUM_CHEAP (notebook_config\<lparr>NUM_CHEAP := 0\<rparr>) = 0"
    by (simp add: notebook_config_def)
  have h3: "NUM_CHEAP (notebook_config\<lparr>NUM_CHEAP := - 8\<rparr>) < 0" by simp
  from no_configuration_check [of "notebook_config\<lparr>COST_BUDGET := - 5\<rparr>" scripted_planner
      demo_lookup "\<lparr>asked = NaN, script = [], greedy = []\<rparr>"] h1
  have a: "experiment_loop (notebook_config\<lparr>COST_BUDGET := - 5\<rparr>) scripted_planner demo_lookup
     (initial_state \<lparr>asked = NaN, script = [], greedy = []\<rparr>)
     = Some (BudgetExhausted (initial_state \<lparr>asked = NaN, script = [], greedy = []\<rparr>))"
    by blast
  from no_configuration_check [of "notebook_config\<lparr>NUM_CHEAP := 0\<rparr>" scripted_planner
      demo_lookup "\<lparr>asked = NaN, script = [], greedy = []\<rparr>"] h2
  have b: "experiment_loop (notebook_config\<lparr>NUM_CHEAP := 0\<rparr>) scripted_planner demo_lookup
     (initial_state \<lparr>asked = NaN, script = [], greedy = []\<rparr>)
     = Some (Failed ZeroDivisionError (initial_state \<lparr>asked = NaN, script = [], greedy = []\<rparr>))"
    by blast
  from no_configuration_check
    [where cfg = "notebook_config\<lparr>NUM_CHEAP := - 8\<rparr>" and i = 1, THEN conjunct2, THEN conjunct2] h3
  have c: "ask_fidelity 1 (NUM_CHEAP (notebook_config\<lparr>NUM_CHEAP := - 8\<rparr>)) = Inr lit_0_1"
    by simp
  from no_configuration_check
    [where cfg = "notebook_config\<lparr>NUM_CHEAP := - 8\<rparr>" and i = 16, THEN conjunct2, THEN conjunct2] h3
  have d: "ask_fidelity 16 (NUM_CHEAP (notebook_config\<lparr>NUM_CHEAP := - 8\<rparr>)) = Inr lit_1_0"
    by simp
  from a b c d show ?thesis by blast
qed

subsection \<open>C9: the stale \<^verbatim>\<open>measurement\<close>\<close>

text \<open>
  Claim C9. When the planner returns an empty batch and the observation count is within
  \<^verbatim>\<open>NUM_INIT_DESIGN\<close>, the \<^verbatim>\<open>else\<close> branch reads \<^verbatim>\<open>measurement\<close>, which the
  \<^verbatim>\<open>for\<close> loop of this pass did not assign. On the first pass it is unbound and the read
  raises \<^verbatim>\<open>NameError\<close>. On a later pass (after \<open>n > 0\<close> complete passes) it is bound, to
  the measurement of the last ledger entry, recorded by an earlier pass: that stale value is
  appended to the trace, and the pass goes on to the next one unless the value equals
  \<^verbatim>\<open>min_hse06_bandgap\<close>, in which case \<^verbatim>\<open>samples[0]\<close> raises \<^verbatim>\<open>IndexError\<close>.
\<close>

theorem stale_measurement_on_empty_batch:
  "(0 \<le> NUM_INIT_DESIGN cfg \<and>
    request_and_measure cfg P LOOKUP (initial_state p) = Inr ([], st1) \<longrightarrow>
      measurement st1 = None \<and>
      loop_body cfg P LOOKUP (initial_state p) = Raise NameError st1) \<and>
   (0 < n \<and> passes n cfg P LOOKUP (initial_state p) = Some st \<and>
    request_and_measure cfg P LOOKUP st = Inr ([], st2) \<and>
    int (length (observations st2)) \<le> NUM_INIT_DESIGN cfg \<longrightarrow>
      observations st \<noteq> [] \<and> observations st2 = observations st \<and>
      measurement st2 = Some (snd (last (observations st))) \<and>
      loop_body cfg P LOOKUP st =
        (if float_eq (snd (last (observations st))) (min_hse06_bandgap cfg)
         then Raise IndexError
                (st2\<lparr>target_rec_measurements :=
                       target_rec_measurements st @ [snd (last (observations st))]\<rparr>)
         else Continue
                (st2\<lparr>target_rec_measurements :=
                       target_rec_measurements st @ [snd (last (observations st))]\<rparr>)))"
proof -
  have empty: "\<exists>p2. sta = stb\<lparr>planner_state := p2\<rparr>"
    if "request_and_measure cfg P LOOKUP stb = Inr ([], sta)" for sta stb :: "'a state"
    using request_and_measure_Inr [OF that] by auto
  have part1: "measurement st1 = None \<and> loop_body cfg P LOOKUP (initial_state p) = Raise NameError st1"
    if nid: "0 \<le> NUM_INIT_DESIGN cfg"
      and rm: "request_and_measure cfg P LOOKUP (initial_state p) = Inr ([], st1)"
  proof -
    from empty [OF rm] obtain p2 where "st1 = (initial_state p)\<lparr>planner_state := p2\<rparr>" ..
    with nid rm show ?thesis
      by (simp add: loop_body_def convergence_check_def initial_state_def)
  qed
  have part2: "observations st \<noteq> [] \<and> observations st2 = observations st \<and>
      measurement st2 = Some (snd (last (observations st))) \<and>
      loop_body cfg P LOOKUP st =
        (if float_eq (snd (last (observations st))) (min_hse06_bandgap cfg)
         then Raise IndexError
                (st2\<lparr>target_rec_measurements :=
                       target_rec_measurements st @ [snd (last (observations st))]\<rparr>)
         else Continue
                (st2\<lparr>target_rec_measurements :=
                       target_rec_measurements st @ [snd (last (observations st))]\<rparr>))"
    if n: "0 < n" and reach: "passes n cfg P LOOKUP (initial_state p) = Some st"
      and rm: "request_and_measure cfg P LOOKUP st = Inr ([], st2)"
      and init: "int (length (observations st2)) \<le> NUM_INIT_DESIGN cfg"
  proof -
    from empty [OF rm] obtain p2 where st2: "st2 = st\<lparr>planner_state := p2\<rparr>" ..
    from n obtain k where "n = Suc k" by (cases n) auto
    with reach passes_last [of k cfg P LOOKUP "initial_state p" st] obtain prev where
      prev: "loop_body cfg P LOOKUP prev = Continue st" by blast
    from init st2 have "int (length (observations st)) \<le> NUM_INIT_DESIGN cfg" by simp
    from continue_in_init_phase [OF prev this] have bound: "measurement st \<noteq> None" .
    have "measurement (initial_state p) = last_measurement (observations (initial_state p))"
      by (simp add: initial_state_def last_measurement_def)
    from passes_last_measurement [OF reach this]
    have inv: "measurement st = last_measurement (observations st)" .
    from bound inv have ne: "observations st \<noteq> []"
      and m: "measurement st = Some (snd (last (observations st)))"
      by (auto simp: last_measurement_def split: if_splits)
    from rm init st2 m ne show ?thesis
      by (simp add: loop_body_def convergence_check_def Let_def)
  qed
  from part1 part2 show ?thesis by blast
qed

text \<open>The theorem at work for C9: an empty batch on the first pass, and an empty batch after a
  pass that measured one sample.\<close>

theorem stale_measurement_on_empty_batch_witness:
  "0 \<le> NUM_INIT_DESIGN notebook_config \<and>
   request_and_measure notebook_config scripted_planner demo_lookup
     (initial_state \<lparr>asked = NaN, script = [[]], greedy = []\<rparr>)
     = Inr ([], initial_state \<lparr>asked = lit_1_0, script = [], greedy = []\<rparr>) \<and>
   loop_body notebook_config scripted_planner demo_lookup
     (initial_state \<lparr>asked = NaN, script = [[]], greedy = []\<rparr>)
     = Raise NameError (initial_state \<lparr>asked = lit_1_0, script = [], greedy = []\<rparr>) \<and>
   (0::nat) < 1 \<and>
   passes 1 notebook_config scripted_planner demo_lookup
     (initial_state \<lparr>asked = NaN, script = [[perovskite lit_1_0 ''Pb'' ''I''], []], greedy = []\<rparr>)
     = Some \<lparr>COST = 0, iter_n = 1, target_rec_measurements = [Fin (21 / 10)],
              measurement = Some (Fin (21 / 10)),
              observations = [(perovskite lit_1_0 ''Pb'' ''I'', Fin (21 / 10))],
              planner_state = \<lparr>asked = lit_1_0, script = [[]], greedy = []\<rparr>\<rparr> \<and>
   loop_body notebook_config scripted_planner demo_lookup
     \<lparr>COST = 0, iter_n = 1, target_rec_measurements = [Fin (21 / 10)],
       measurement = Some (Fin (21 / 10)),
       observations = [(perovskite lit_1_0 ''Pb'' ''I'', Fin (21 / 10))],
       planner_state = \<lparr>asked = lit_1_0, script = [[]], greedy = []\<rparr>\<rparr>
     = Continue
         \<lparr>COST = 0, iter_n = 1, target_rec_measurements = [Fin (21 / 10), Fin (21 / 10)],
           measurement = Some (Fin (21 / 10)),
           observations = [(perovskite lit_1_0 ''Pb'' ''I'', Fin (21 / 10))],
           planner_state = \<lparr>asked = lit_0_1, script = [], greedy = []\<rparr>\<rparr>"
proof -
  let ?p0 = "\<lparr>asked = NaN, script = [[]], greedy = []\<rparr>"
  let ?st1 = "initial_state \<lparr>asked = lit_1_0, script = [], greedy = []\<rparr>"
  let ?q0 = "\<lparr>asked = NaN, script = [[perovskite lit_1_0 ''Pb'' ''I''], []], greedy = []\<rparr>"
  let ?st = "\<lparr>COST = 0, iter_n = 1, target_rec_measurements = [Fin (21 / 10)],
              measurement = Some (Fin (21 / 10)),
              observations = [(perovskite lit_1_0 ''Pb'' ''I'', Fin (21 / 10))],
              planner_state = \<lparr>asked = lit_1_0, script = [[]], greedy = []\<rparr>\<rparr>"
  let ?st2 = "\<lparr>COST = 0, iter_n = 1, target_rec_measurements = [Fin (21 / 10)],
              measurement = Some (Fin (21 / 10)),
              observations = [(perovskite lit_1_0 ''Pb'' ''I'', Fin (21 / 10))],
              planner_state = \<lparr>asked = lit_0_1, script = [], greedy = []\<rparr>\<rparr>"
  have a1: "0 \<le> NUM_INIT_DESIGN notebook_config" by (simp add: notebook_config_def)
  have a2: "request_and_measure notebook_config scripted_planner demo_lookup (initial_state ?p0)
              = Inr ([], ?st1)"
    by code_simp
  have b1: "(0::nat) < 1" by simp
  have b2: "passes 1 notebook_config scripted_planner demo_lookup (initial_state ?q0) = Some ?st"
    by code_simp
  have b3: "request_and_measure notebook_config scripted_planner demo_lookup ?st = Inr ([], ?st2)"
    by code_simp
  have b4: "int (length (observations ?st2)) \<le> NUM_INIT_DESIGN notebook_config"
    by (simp add: notebook_config_def)
  from stale_measurement_on_empty_batch
    [of notebook_config scripted_planner demo_lookup ?p0 ?st1, THEN conjunct1] a1 a2
  have a: "loop_body notebook_config scripted_planner demo_lookup (initial_state ?p0)
             = Raise NameError ?st1"
    by blast
  from stale_measurement_on_empty_batch
    [of notebook_config scripted_planner demo_lookup ?q0 _ 1 ?st ?st2, THEN conjunct2]
    b1 b2 b3 b4
  have b: "loop_body notebook_config scripted_planner demo_lookup ?st =
        (if float_eq (snd (last (observations ?st))) (min_hse06_bandgap notebook_config)
         then Raise IndexError
                (?st2\<lparr>target_rec_measurements :=
                       target_rec_measurements ?st @ [snd (last (observations ?st))]\<rparr>)
         else Continue
                (?st2\<lparr>target_rec_measurements :=
                       target_rec_measurements ?st @ [snd (last (observations ?st))]\<rparr>))"
    by blast
  have "loop_body notebook_config scripted_planner demo_lookup ?st
          = Continue (?st2\<lparr>target_rec_measurements := [Fin (21 / 10), Fin (21 / 10)]\<rparr>)"
    by (subst b) (simp add: notebook_config_def)
  with a1 a2 a b1 b2 show ?thesis by simp
qed

subsection \<open>C10: the oracle\<close>

text \<open>
  Claim C10. \<open>measure\<close> returns a measurement only when the fidelity \<open>s\<close> compares equal
  to 1.0 or to 0.1: for every other fidelity neither branch assigns the local
  \<open>measurement\<close> and the \<open>return\<close> fails with an unbound-variable error. A returned
  measurement is \<open>np.amin\<close> of the HSE06 band gaps of the sample for 1.0 and of the GGA
  band gaps for 0.1; unless it is NaN it is one of the band gaps and the least of them.
\<close>

theorem measure_oracle_two_fidelities:
  "(\<not> float_eq sv lit_1_0 \<and> \<not> float_eq sv lit_0_1 \<longrightarrow>
      measure_oracle LOOKUP params sv = Inl UnboundLocalError) \<and>
   (measure_oracle LOOKUP params sv = Inr m \<longrightarrow>
      (\<exists>gaps. lookup_bandgaps LOOKUP params
                 (if float_eq sv lit_1_0 then ''bandgap_hse06'' else ''bandgap_gga'') = Inr gaps \<and>
              amin gaps = Inr m \<and>
              (m \<noteq> NaN \<longrightarrow> m \<in> set gaps \<and> (\<forall>g\<in>set gaps. float_le m g))) \<and>
      (float_eq sv lit_1_0 \<or> float_eq sv lit_0_1))"
  by (auto simp: measure_oracle_def split: sum.splits if_splits dest: amin_least)

theorem measure_oracle_two_fidelities_witness:
  "\<not> float_eq (Fin (1 / 2)) lit_1_0 \<and> \<not> float_eq (Fin (1 / 2)) lit_0_1 \<and>
   measure_oracle demo_lookup (perovskite (Fin (1 / 2)) ''Pb'' ''I'') (Fin (1 / 2)) = Inl UnboundLocalError \<and>
   measure_oracle demo_lookup (perovskite lit_1_0 ''Pb'' ''I'') lit_1_0 = Inr (Fin (21 / 10)) \<and>
   lookup_bandgaps demo_lookup (perovskite lit_1_0 ''Pb'' ''I'') ''bandgap_hse06''
     = Inr [Fin (5 / 2), Fin (21 / 10)] \<and>
   float_le (Fin (21 / 10)) (Fin (5 / 2))"
proof -
  have h: "\<not> float_eq (Fin (1 / 2)) lit_1_0 \<and> \<not> float_eq (Fin (1 / 2)) lit_0_1"
    by (simp add: lit_1_0_def lit_0_1_def)
  have m: "measure_oracle demo_lookup (perovskite lit_1_0 ''Pb'' ''I'') lit_1_0 = Inr (Fin (21 / 10))"
    by code_simp
  have l: "lookup_bandgaps demo_lookup (perovskite lit_1_0 ''Pb'' ''I'') ''bandgap_hse06''
     = Inr [Fin (5 / 2), Fin (21 / 10)]"
    by code_simp
  have e: "float_eq lit_1_0 lit_1_0" by (simp add: lit_1_0_def)
  from measure_oracle_two_fidelities
    [of "Fin (1 / 2)" demo_lookup "perovskite (Fin (1 / 2)) ''Pb'' ''I''"] h
  have a: "measure_oracle demo_lookup (perovskite (Fin (1 / 2)) ''Pb'' ''I'') (Fin (1 / 2))
             = Inl UnboundLocalError"
    by blast
  from measure_oracle_two_fidelities
    [of lit_1_0 demo_lookup "perovskite lit_1_0 ''Pb'' ''I''" "Fin (21 / 10)"] m l e
  have b: "float_le (Fin (21 / 10)) (Fin (5 / 2))"
    by simp
  from h a m l b show ?thesis by simp
qed

end
